theory Spec2Isabelle
  imports Main
begin

text \<open>
  The token lifecycle of the server (the \<open>User\<close> model and the controllers
  \<open>loginUser\<close>, \<open>logoutUser\<close> and \<open>refreshAccessToken\<close>) and the time to live of
  the client's cached refresh result, as functions on an explicit database state. A
  controller takes the clock and the database and returns the database it leaves and
  its response.
\<close>

section \<open>Strings and the schema's setters\<close>

text \<open>
  The \<open>User\<close> schema declares \<open>email\<close> with \<open>lowercase: true, trim: true\<close> and
  \<open>username\<close> with \<open>trim: true\<close>. Mongoose turns each of these options into a setter of
  the path that calls \<open>String.prototype.toLowerCase\<close> or \<open>String.prototype.trim\<close>,
  and runs a path's setters, the one declared last first, both when a document field is
  assigned and when a query filter on that path is cast.

  The two functions belong to the language, not to the repository, and follow the
  Unicode tables. They are parameters of the model: every function that casts a string
  takes them as \<open>js\<close>.
\<close>

record string_prototype =
  toLowerCase :: "string \<Rightarrow> string"
  trim :: "string \<Rightarrow> string"

definition username_setter :: "string_prototype \<Rightarrow> string \<Rightarrow> string" where
  "username_setter js s = trim js s"

definition email_setter :: "string_prototype \<Rightarrow> string \<Rightarrow> string" where
  "email_setter js s = toLowerCase js (trim js s)"

text \<open>
  What the two functions do on strings of code points below 256, one \<open>char\<close> each:
  \<open>toLowerCase\<close> maps the letters A to Z and the letters U+00C0 to U+00DE other than
  the multiplication sign U+00D7 to the code point 32 higher, and \<open>trim\<close> strips from
  both ends the code points U+0009 to U+000D, U+0020 and U+00A0. The examples are
  evaluated with this instance.
\<close>

definition latin1_upper :: string where
  "latin1_upper = ''ABCDEFGHIJKLMNOPQRSTUVWXYZ'' @
     [CHR 0xC0, CHR 0xC1, CHR 0xC2, CHR 0xC3, CHR 0xC4, CHR 0xC5, CHR 0xC6, CHR 0xC7,
      CHR 0xC8, CHR 0xC9, CHR 0xCA, CHR 0xCB, CHR 0xCC, CHR 0xCD, CHR 0xCE, CHR 0xCF,
      CHR 0xD0, CHR 0xD1, CHR 0xD2, CHR 0xD3, CHR 0xD4, CHR 0xD5, CHR 0xD6,
      CHR 0xD8, CHR 0xD9, CHR 0xDA, CHR 0xDB, CHR 0xDC, CHR 0xDD, CHR 0xDE]"

definition latin1_lower :: string where
  "latin1_lower = ''abcdefghijklmnopqrstuvwxyz'' @
     [CHR 0xE0, CHR 0xE1, CHR 0xE2, CHR 0xE3, CHR 0xE4, CHR 0xE5, CHR 0xE6, CHR 0xE7,
      CHR 0xE8, CHR 0xE9, CHR 0xEA, CHR 0xEB, CHR 0xEC, CHR 0xED, CHR 0xEE, CHR 0xEF,
      CHR 0xF0, CHR 0xF1, CHR 0xF2, CHR 0xF3, CHR 0xF4, CHR 0xF5, CHR 0xF6,
      CHR 0xF8, CHR 0xF9, CHR 0xFA, CHR 0xFB, CHR 0xFC, CHR 0xFD, CHR 0xFE]"

definition latin1_toLowerChar :: "char \<Rightarrow> char" where
  "latin1_toLowerChar c =
     (case map_of (zip latin1_upper latin1_lower) c of None \<Rightarrow> c | Some l \<Rightarrow> l)"

definition latin1_isSpace :: "char \<Rightarrow> bool" where
  "latin1_isSpace c =
     (c \<in> set [CHR 0x09, CHR 0x0A, CHR 0x0B, CHR 0x0C, CHR 0x0D, CHR '' '', CHR 0xA0])"

definition latin1 :: string_prototype where
  "latin1 =
     \<lparr>toLowerCase = map latin1_toLowerChar,
      trim = (\<lambda>s. rev (dropWhile latin1_isSpace (rev (dropWhile latin1_isSpace s))))\<rparr>"

section \<open>Data model\<close>

datatype role = RoleUser | RoleAdmin | RoleEditor | RoleSupport

datatype subscription_status = Active | Trialing | Canceled | PastDue | Pending | Free

text \<open>Of a plan document only the identifier and the slug are read by the token code.\<close>

record plan =
  plan_id :: nat
  slug :: string

subsection \<open>Signed tokens\<close>

text \<open>
  A token is modelled symbolically: a JSON web token is determined by the secret it was
  signed with, its payload and the two time stamps \<open>iat\<close> and \<open>exp\<close> (in seconds) that
  \<open>jwt.sign\<close> adds; any other string a client may send is \<open>Raw\<close>. Equality of tokens
  is the string equality \<open>===\<close> of the source. \<open>ForeignSecret\<close> stands for a key that
  is not one of the server's two.
\<close>

datatype secret = ACCESS_TOKEN_SECRET | REFRESH_TOKEN_SECRET | ForeignSecret nat

datatype claims = AccessClaims nat role string | RefreshClaims nat

datatype token = Jwt secret claims int int | Raw string

datatype jwt_error = TokenExpiredError | JsonWebTokenError

fun claims_id :: "claims \<Rightarrow> nat" where
  "claims_id (AccessClaims i r p) = i"
| "claims_id (RefreshClaims i) = i"

definition ACCESS_TOKEN_EXPIRY :: int where
  "ACCESS_TOKEN_EXPIRY = 15 * 60"

definition REFRESH_TOKEN_EXPIRY :: int where
  "REFRESH_TOKEN_EXPIRY = 7 * 24 * 60 * 60"

text \<open>\<open>jwt.sign(payload, secret, {expiresIn})\<close> at the clock \<open>now\<close> (milliseconds).\<close>

definition jwt_sign :: "int \<Rightarrow> claims \<Rightarrow> secret \<Rightarrow> int \<Rightarrow> token" where
  "jwt_sign now payload key expiresIn =
     (let iat = now div 1000 in Jwt key payload iat (iat + expiresIn))"

text \<open>
  \<open>jwt.verify(token, secret)\<close>: a string that is no token, or a signature made with
  another key, throws \<open>JsonWebTokenError\<close>; only then is the expiry compared with the
  clock, and a token whose \<open>exp\<close> is reached throws \<open>TokenExpiredError\<close>.
\<close>

fun jwt_verify :: "int \<Rightarrow> token \<Rightarrow> secret \<Rightarrow> jwt_error + claims" where
  "jwt_verify now (Raw s) key = Inl JsonWebTokenError"
| "jwt_verify now (Jwt k payload iat exp) key =
     (if k \<noteq> key then Inl JsonWebTokenError
      else if exp \<le> now div 1000 then Inl TokenExpiredError
      else Inr payload)"

subsection \<open>Documents and collections\<close>

text \<open>
  The value of \<open>planId\<close> on a user document: absent or \<open>null\<close>, a bare object id, or
  (after \<open>populate\<close>) the plan document itself. Stored documents hold the first two.
\<close>

datatype planId_val = PlanNull | PlanOid nat | PlanDoc plan

text \<open>
  \<open>bcrypt.hash\<close> is kept symbolic: a hash remembers the password it was made from.
  bcrypt reads the first 72 bytes of a password and no more.
\<close>

datatype pwhash = Bcrypt string

record user =
  user_id :: nat
  username :: string
  email :: string
  password_hash :: pwhash
  refreshToken :: "token option"
  planId :: planId_val
  subscriptionStatus :: subscription_status
  subscriptionStartDate :: "int option"
  subscriptionEndDate :: "int option"
  trialEndsAt :: "int option"
  role :: role

record usedRefreshToken =
  used_token :: token
  used_userId :: nat
  used_accessToken :: token
  used_createdAt :: int

text \<open>
  The database: the three collections the token code touches, and whether the server
  can reach it (a driver call on an unreachable database throws).
\<close>

record database =
  up :: bool
  users :: "user list"
  plans :: "plan list"
  usedRefreshTokens :: "usedRefreshToken list"

subsection \<open>Responses\<close>

record user_summary =
  sum_id :: nat
  sum_username :: string
  sum_email :: string
  sum_role :: role
  sum_plan :: "string option"
  sum_subscriptionStatus :: subscription_status

record response =
  status :: nat
  message :: string
  res_accessToken :: "token option"
  res_refreshToken :: "token option"
  res_user :: "user_summary option"

definition reply :: "nat \<Rightarrow> string \<Rightarrow> response" where
  "reply code msg =
     \<lparr>status = code, message = msg, res_accessToken = None, res_refreshToken = None,
      res_user = None\<rparr>"

section \<open>Queries\<close>

text \<open>\<open>Model.updateOne(filter, update)\<close> changes the first document the filter matches.\<close>

fun updateOne :: "('a \<Rightarrow> bool) \<Rightarrow> ('a \<Rightarrow> 'a) \<Rightarrow> 'a list \<Rightarrow> 'a list" where
  "updateOne P f [] = []"
| "updateOne P f (x # xs) = (if P x then f x # xs else x # updateOne P f xs)"

definition findById :: "database \<Rightarrow> nat \<Rightarrow> user option" where
  "findById db i = find (\<lambda>u. user_id u = i) (users db)"

text \<open>
  \<open>User.findOne({$or: [{username: identifier}, {email: identifier}]})\<close>, each branch
  cast by the setters of its path.
\<close>

definition matchesIdentifier :: "string_prototype \<Rightarrow> string \<Rightarrow> user \<Rightarrow> bool" where
  "matchesIdentifier js identifier u =
     (username u = username_setter js identifier \<or> email u = email_setter js identifier)"

definition findByIdentifier :: "string_prototype \<Rightarrow> database \<Rightarrow> string \<Rightarrow> user option" where
  "findByIdentifier js db identifier = find (matchesIdentifier js identifier) (users db)"

text \<open>\<open>.populate('planId')\<close>: a reference that resolves to no plan becomes \<open>null\<close>.\<close>

definition populate :: "database \<Rightarrow> user \<Rightarrow> user" where
  "populate db u =
     (case planId u of
        PlanOid i \<Rightarrow>
          (case find (\<lambda>p. plan_id p = i) (plans db) of
             Some p \<Rightarrow> u\<lparr>planId := PlanDoc p\<rparr>
           | None \<Rightarrow> u\<lparr>planId := PlanNull\<rparr>)
      | _ \<Rightarrow> u)"

section \<open>The \<open>User\<close> model's methods\<close>

definition bcrypt_compare :: "string \<Rightarrow> pwhash \<Rightarrow> bool" where
  "bcrypt_compare attempt h = (case h of Bcrypt p \<Rightarrow> take 72 attempt = take 72 p)"

text \<open>
  \<open>isPasswordCorrect\<close>: an empty attempt is refused before the hash is consulted.
  The login query selects \<open>password_hash\<close>, a required path, so it is present.
\<close>

definition isPasswordCorrect :: "user \<Rightarrow> string \<Rightarrow> bool" where
  "isPasswordCorrect this passwordAttempt =
     (if passwordAttempt = [] then False
      else bcrypt_compare passwordAttempt (password_hash this))"

definition generateAccessToken :: "int \<Rightarrow> user \<Rightarrow> token" where
  "generateAccessToken now this =
     (let planSlug =
        (case planId this of
           PlanDoc p \<Rightarrow>
             (if slug p \<noteq> [] then slug p
              else if subscriptionStatus this = Free then ''free'' else ''free'')
         | PlanOid i \<Rightarrow> (if subscriptionStatus this = Free then ''free'' else ''free'')
         | PlanNull \<Rightarrow> ''free'')
      in jwt_sign now (AccessClaims (user_id this) (role this) planSlug)
           ACCESS_TOKEN_SECRET ACCESS_TOKEN_EXPIRY)"

definition generateRefreshToken :: "int \<Rightarrow> user \<Rightarrow> token" where
  "generateRefreshToken now this =
     jwt_sign now (RefreshClaims (user_id this)) REFRESH_TOKEN_SECRET REFRESH_TOKEN_EXPIRY"

text \<open>
  The object \<open>updateData\<close> of \<open>checkAndUpdateExpiredStatus\<close> has one of two shapes:
  the status alone, or the five fields of a return to the free plan. \<open>Object.assign\<close>
  writes its fields onto a document.
\<close>

datatype updateData = StatusOnly subscription_status | RevertToFree nat int

fun object_assign :: "user \<Rightarrow> updateData \<Rightarrow> user" where
  "object_assign u (StatusOnly s) = u\<lparr>subscriptionStatus := s\<rparr>"
| "object_assign u (RevertToFree freeId now) =
     u\<lparr>planId := PlanOid freeId, subscriptionStatus := Free,
       subscriptionStartDate := Some now, subscriptionEndDate := None,
       trialEndsAt := None\<rparr>"

definition reached :: "int option \<Rightarrow> int \<Rightarrow> bool" where
  "reached d now = (case d of None \<Rightarrow> False | Some t \<Rightarrow> t \<le> now)"

definition subscriptionLapsed :: "int \<Rightarrow> user \<Rightarrow> bool" where
  "subscriptionLapsed now this =
     ((subscriptionStatus this = Active \<and> reached (subscriptionEndDate this) now) \<or>
      (subscriptionStatus this = Trialing \<and> reached (trialEndsAt this) now))"

text \<open>
  \<open>checkAndUpdateExpiredStatus\<close> returns the document as it has mutated it, together
  with its result \<open>updated\<close>.
\<close>

definition checkAndUpdateExpiredStatus :: "int \<Rightarrow> database \<Rightarrow> user \<Rightarrow> user \<times> bool" where
  "checkAndUpdateExpiredStatus now db this =
     (if subscriptionLapsed now this then
        (let updateData =
           (case find (\<lambda>p. slug p = ''free'') (plans db) of
              Some freePlan \<Rightarrow> RevertToFree (plan_id freePlan) now
            | None \<Rightarrow> StatusOnly Canceled)
         in (object_assign this updateData, True))
      else (this, False))"

text \<open>
  \<open>this.save()\<close> sends the paths of the document whose value differs from the value
  the document was read with, and no others, to the stored document of the same
  identifier, whatever that document holds at the time of the write. \<open>writeModified\<close>
  is the effect on the stored document: \<open>read\<close> is the document as it was read,
  \<open>this\<close> the document as it is saved.
\<close>

definition writeModified :: "user \<Rightarrow> user \<Rightarrow> user \<Rightarrow> user" where
  "writeModified read this stored =
     stored
      \<lparr>username := (if username this \<noteq> username read then username this else username stored),
       email := (if email this \<noteq> email read then email this else email stored),
       password_hash :=
         (if password_hash this \<noteq> password_hash read then password_hash this
          else password_hash stored),
       refreshToken :=
         (if refreshToken this \<noteq> refreshToken read then refreshToken this
          else refreshToken stored),
       planId := (if planId this \<noteq> planId read then planId this else planId stored),
       subscriptionStatus :=
         (if subscriptionStatus this \<noteq> subscriptionStatus read then subscriptionStatus this
          else subscriptionStatus stored),
       subscriptionStartDate :=
         (if subscriptionStartDate this \<noteq> subscriptionStartDate read
          then subscriptionStartDate this else subscriptionStartDate stored),
       subscriptionEndDate :=
         (if subscriptionEndDate this \<noteq> subscriptionEndDate read
          then subscriptionEndDate this else subscriptionEndDate stored),
       trialEndsAt :=
         (if trialEndsAt this \<noteq> trialEndsAt read then trialEndsAt this
          else trialEndsAt stored),
       role := (if role this \<noteq> role read then role this else role stored)\<rparr>"

text \<open>The save fails when no document of that identifier is stored.\<close>

definition save :: "database \<Rightarrow> user \<Rightarrow> user \<Rightarrow> database option" where
  "save db read this =
     (case findById db (user_id this) of
        None \<Rightarrow> None
      | Some stored \<Rightarrow>
          Some (db\<lparr>users :=
            updateOne (\<lambda>s. user_id s = user_id this) (writeModified read this) (users db)\<rparr>))"

text \<open>
  \<open>generateAccessAndRefereshTokens\<close>: any failure inside is rethrown as one error
  (\<open>None\<close>). The document counts as read once its plan is populated. The result
  carries the database after the save, the mutated document and the two tokens.
\<close>

definition generateAccessAndRefereshTokens ::
  "int \<Rightarrow> database \<Rightarrow> user \<Rightarrow> (database \<times> user \<times> token \<times> token) option" where
  "generateAccessAndRefereshTokens now db this =
     (if \<not> up db then None
      else
        (let this1 = populate db this;
             (this2, updated) = checkAndUpdateExpiredStatus now db this1;
             accessToken = generateAccessToken now this2;
             refreshToken' = generateRefreshToken now this2;
             this3 = this2\<lparr>refreshToken := Some refreshToken'\<rparr>
         in (case save db this1 this3 of
               None \<Rightarrow> None
             | Some db' \<Rightarrow> Some (db', this3, accessToken, refreshToken'))))"

section \<open>Controllers\<close>

definition summary_plan :: "user \<Rightarrow> string option" where
  "summary_plan u =
     (case planId u of
        PlanDoc p \<Rightarrow> Some (slug p)
      | PlanOid i \<Rightarrow> None
      | PlanNull \<Rightarrow> (if subscriptionStatus u = Free then Some ''free'' else None))"

definition summarise :: "user \<Rightarrow> user_summary" where
  "summarise u =
     \<lparr>sum_id = user_id u, sum_username = username u, sum_email = email u,
      sum_role = role u, sum_plan = summary_plan u,
      sum_subscriptionStatus = subscriptionStatus u\<rparr>"

text \<open>\<open>loginUser\<close>; an absent body field is the empty string.\<close>

definition loginUser ::
  "string_prototype \<Rightarrow> int \<Rightarrow> database \<Rightarrow> string \<Rightarrow> string \<Rightarrow> database \<times> response" where
  "loginUser js now db identifier password =
     (if identifier = [] \<or> password = [] then
        (db, reply 400 ''Please provide username/email and password.'')
      else if \<not> up db then (db, reply 500 ''Error logging in user.'')
      else
        (case findByIdentifier js db identifier of
           None \<Rightarrow> (db, reply 404 ''Invalid credentials.'')
         | Some found \<Rightarrow>
             (let user = populate db found in
              if \<not> isPasswordCorrect user password then
                (db, reply 401 ''Invalid credentials.'')
              else
                (case generateAccessAndRefereshTokens now db user of
                   None \<Rightarrow> (db, reply 500 ''Error logging in user.'')
                 | Some (db', user', accessToken, refreshToken') \<Rightarrow>
                     (db', \<lparr>status = 200, message = ''Login successful.'',
                            res_accessToken = Some accessToken,
                            res_refreshToken = Some refreshToken',
                            res_user = Some (summarise user')\<rparr>)))))"

definition unsetRefreshToken :: "user \<Rightarrow> user" where
  "unsetRefreshToken u = u\<lparr>refreshToken := None\<rparr>"

text \<open>A body token that is absent or the empty string is falsy.\<close>

definition presented :: "token option \<Rightarrow> token option" where
  "presented t = (case t of None \<Rightarrow> None | Some T \<Rightarrow> if T = Raw [] then None else Some T)"

text \<open>
  \<open>logoutUser\<close>: \<open>userId\<close> is the identifier the authentication middleware decoded,
  if any.
\<close>

definition logoutUser ::
  "database \<Rightarrow> nat option \<Rightarrow> token option \<Rightarrow> database \<times> response" where
  "logoutUser db userId incomingRefreshToken =
     (case userId of
        Some i \<Rightarrow>
          (if \<not> up db then (db, reply 500 ''Error logging out user.'')
           else (db\<lparr>users := updateOne (\<lambda>u. user_id u = i) unsetRefreshToken (users db)\<rparr>,
                 reply 200 ''User logged out successfully.''))
      | None \<Rightarrow>
          (case presented incomingRefreshToken of
             Some T \<Rightarrow>
               (if \<not> up db then (db, reply 500 ''Error logging out user.'')
                else (db\<lparr>users :=
                          updateOne (\<lambda>u. refreshToken u = Some T) unsetRefreshToken (users db)\<rparr>,
                      reply 200 ''User logged out successfully.''))
           | None \<Rightarrow> (db, reply 200 ''User logged out successfully.'')))"

text \<open>
  The happy path of \<open>refreshAccessToken\<close>, entered with the document \<open>user\<close> that was
  read from the database and the presented token: it mints and saves the new pair, then
  records the presented token in the grace list. Other requests may run between the
  read of \<open>user\<close> and this block, so the database it writes to is a parameter of its
  own.
\<close>

definition refreshHappyPath ::
  "int \<Rightarrow> database \<Rightarrow> user \<Rightarrow> token \<Rightarrow> database \<times> response" where
  "refreshHappyPath now db user incomingRefreshToken =
     (case generateAccessAndRefereshTokens now db user of
        None \<Rightarrow> (db, reply 500 ''Internal server error.'')
      | Some (db', user', accessToken, newRefreshToken) \<Rightarrow>
          (db'\<lparr>usedRefreshTokens := usedRefreshTokens db' @
                 [\<lparr>used_token = incomingRefreshToken, used_userId = user_id user',
                   used_accessToken = accessToken, used_createdAt = now\<rparr>]\<rparr>,
           \<lparr>status = 200, message = ''Access token refreshed.'',
            res_accessToken = Some accessToken,
            res_refreshToken = Some newRefreshToken, res_user = None\<rparr>))"

definition refreshAccessToken ::
  "int \<Rightarrow> database \<Rightarrow> token option \<Rightarrow> database \<times> response" where
  "refreshAccessToken now db body =
     (case presented body of
        None \<Rightarrow> (db, reply 401 ''Unauthorized: No refresh token provided.'')
      | Some incomingRefreshToken \<Rightarrow>
          (case jwt_verify now incomingRefreshToken REFRESH_TOKEN_SECRET of
             Inl TokenExpiredError \<Rightarrow> (db, reply 403 ''Forbidden: Refresh token expired.'')
           | Inl JsonWebTokenError \<Rightarrow> (db, reply 403 ''Forbidden: Malformed refresh token.'')
           | Inr decoded \<Rightarrow>
               (if \<not> up db then (db, reply 500 ''Internal server error.'')
                else
                  (case findById db (claims_id decoded) of
                     None \<Rightarrow> (db, reply 403 ''Forbidden: User not found.'')
                   | Some found \<Rightarrow>
                       (let user = populate db found in
                        if refreshToken user = Some incomingRefreshToken then
                          refreshHappyPath now db user incomingRefreshToken
                        else
                          (case find (\<lambda>e. used_token e = incomingRefreshToken)
                                  (usedRefreshTokens db) of
                             Some isInGraceList \<Rightarrow>
                               (db, \<lparr>status = 200,
                                     message = ''Access token refreshed (grace period).'',
                                     res_accessToken = Some (used_accessToken isInGraceList),
                                     res_refreshToken = refreshToken user,
                                     res_user = None\<rparr>)
                           | None \<Rightarrow>
                               (db, reply 403 ''Forbidden: Invalid refresh token.'')))))))"

section \<open>The cached refresh result of the client\<close>

definition EARLY_REFRESH_WINDOW_MS :: int where
  "EARLY_REFRESH_WINDOW_MS = 30000"

definition RESULT_TTL_CAP_MS :: int where
  "RESULT_TTL_CAP_MS = 20000"

text \<open>
  The time to live that the leader of \<open>distributedSingleFlightRefresh\<close> gives the
  cached result; \<open>accessTokenExpires\<close> is the field of the refreshed token, if it has
  one. Times are whole milliseconds, which JavaScript's numbers represent exactly.
\<close>

definition resultTtlMs :: "int \<Rightarrow> int option \<Rightarrow> int" where
  "resultTtlMs now accessTokenExpires =
     (let expiresMs = (case accessTokenExpires of None \<Rightarrow> 0 | Some e \<Rightarrow> e);
          msUntilEarly = max 0 (expiresMs - now - EARLY_REFRESH_WINDOW_MS)
      in max 2000
           (min RESULT_TTL_CAP_MS
              (if msUntilEarly = 0 then RESULT_TTL_CAP_MS else msUntilEarly)))"

section \<open>Notions used in the statements\<close>

text \<open>The refresh token stored as current for a principal, if any.\<close>

definition currentRefreshToken :: "database \<Rightarrow> nat \<Rightarrow> token option" where
  "currentRefreshToken db i = (case findById db i of None \<Rightarrow> None | Some u \<Rightarrow> refreshToken u)"

text \<open>
  A presented token that is neither expired nor acceptable: its signature fails, or its
  principal is unknown, or it is neither the principal's current token nor in the grace
  list.
\<close>

definition invalidToken :: "int \<Rightarrow> database \<Rightarrow> token \<Rightarrow> bool" where
  "invalidToken now db T =
     (case jwt_verify now T REFRESH_TOKEN_SECRET of
        Inl TokenExpiredError \<Rightarrow> False
      | Inl JsonWebTokenError \<Rightarrow> True
      | Inr decoded \<Rightarrow>
          (case findById db (claims_id decoded) of
             None \<Rightarrow> True
           | Some u \<Rightarrow> refreshToken u \<noteq> Some T \<and>
                find (\<lambda>e. used_token e = T) (usedRefreshTokens db) = None))"


section \<open>Example states\<close>

text \<open>
  Two principals and two plans. \<open>alice\<close> holds the refresh token \<open>T0\<close>, minted at
  second 1000, and an active subscription that ended at 5000 ms. \<open>db1\<close> is the
  database after her refresh at 2000000 ms: her token is \<open>T1\<close>, she is back on the free
  plan, and \<open>T0\<close> is in the grace list with the access token \<open>A1\<close>.
\<close>

definition T0 :: token where
  "T0 = Jwt REFRESH_TOKEN_SECRET (RefreshClaims 1) 1000 605800"

definition T1 :: token where
  "T1 = Jwt REFRESH_TOKEN_SECRET (RefreshClaims 1) 2000 606800"

definition A1 :: token where
  "A1 = Jwt ACCESS_TOKEN_SECRET (AccessClaims 1 RoleUser ''free'') 2000 2900"

definition alice :: user where
  "alice = \<lparr>user_id = 1, username = ''alice'', email = ''alice@x.com'',
     password_hash = Bcrypt ''Secret1!'', refreshToken = Some T0, planId = PlanOid 7,
     subscriptionStatus = Active, subscriptionStartDate = Some 0,
     subscriptionEndDate = Some 5000, trialEndsAt = None, role = RoleUser\<rparr>"

definition alice1 :: user where
  "alice1 = alice\<lparr>planId := PlanOid 8, subscriptionStatus := Free,
     subscriptionStartDate := Some 2000000, subscriptionEndDate := None,
     trialEndsAt := None, refreshToken := Some T1\<rparr>"

definition bob :: user where
  "bob = \<lparr>user_id = 2, username = ''bob'', email = ''bob@x.com'',
     password_hash = Bcrypt ''Hunter2!'', refreshToken = None, planId = PlanNull,
     subscriptionStatus = Pending, subscriptionStartDate = None,
     subscriptionEndDate = None, trialEndsAt = None, role = RoleAdmin\<rparr>"

definition examplePlans :: "plan list" where
  "examplePlans = [\<lparr>plan_id = 7, slug = ''pro''\<rparr>, \<lparr>plan_id = 8, slug = ''free''\<rparr>]"

definition db0 :: database where
  "db0 = \<lparr>up = True, users = [alice, bob], plans = examplePlans, usedRefreshTokens = []\<rparr>"

definition db1 :: database where
  "db1 = \<lparr>up = True, users = [alice1, bob], plans = examplePlans,
     usedRefreshTokens =
       [\<lparr>used_token = T0, used_userId = 1, used_accessToken = A1,
         used_createdAt = 2000000\<rparr>]\<rparr>"




definition eva :: user where
  "eva = \<lparr>user_id = 4, username = ''eva'', email = CHR 0xE9 # ''va@x.com'',
     password_hash = Bcrypt ''Zuerich8!'', refreshToken = None, planId = PlanNull,
     subscriptionStatus = Pending, subscriptionStartDate = None,
     subscriptionEndDate = None, trialEndsAt = None, role = RoleUser\<rparr>"

definition dbMail :: database where
  "dbMail = \<lparr>up = True, users = [bob, eva], plans = [], usedRefreshTokens = []\<rparr>"

section \<open>Unfolding and evaluation\<close>

lemmas token_defs = jwt_sign_def ACCESS_TOKEN_EXPIRY_def REFRESH_TOKEN_EXPIRY_def
  generateAccessToken_def generateRefreshToken_def

lemmas store_defs = findById_def findByIdentifier_def matchesIdentifier_def populate_def
  save_def writeModified_def

lemmas issue_defs = generateAccessAndRefereshTokens_def checkAndUpdateExpiredStatus_def
  subscriptionLapsed_def reached_def Let_def

section \<open>Lists and documents\<close>

lemma find_updateOne:
  "(\<And>x. P (f x) = P x) \<Longrightarrow> find P (updateOne P f xs) = map_option f (find P xs)"
  by (induction xs) auto

lemma updateOne_twice:
  "(\<And>x. P (f x) = P x) \<Longrightarrow> (\<And>x. f (f x) = f x) \<Longrightarrow>
   updateOne P f (updateOne P f xs) = updateOne P f xs"
  by (induction xs) auto

lemma find_snoc:
  "find P (xs @ [x]) = (case find P xs of None \<Rightarrow> (if P x then Some x else None) | Some y \<Rightarrow> Some y)"
  by (induction xs) auto

lemma findById_user_id: "findById db i = Some u \<Longrightarrow> user_id u = i"
  by (auto simp: findById_def find_Some_iff)

lemma populate_fields [simp]:
  "user_id (populate db u) = user_id u"
  "username (populate db u) = username u"
  "email (populate db u) = email u"
  "refreshToken (populate db u) = refreshToken u"
  "subscriptionStatus (populate db u) = subscriptionStatus u"
  "subscriptionStartDate (populate db u) = subscriptionStartDate u"
  "subscriptionEndDate (populate db u) = subscriptionEndDate u"
  "trialEndsAt (populate db u) = trialEndsAt u"
  "password_hash (populate db u) = password_hash u"
  "role (populate db u) = role u"
  by (simp_all add: populate_def split: planId_val.splits option.splits)


lemma populate_idem [simp]: "populate db (populate db u) = populate db u"
  by (simp add: populate_def split: planId_val.splits option.splits)

lemma object_assign_user_id [simp]: "user_id (object_assign u d) = user_id u"
  by (cases d) simp_all

lemma check_user_id [simp]:
  "user_id (fst (checkAndUpdateExpiredStatus now db u)) = user_id u"
  by (simp add: checkAndUpdateExpiredStatus_def Let_def)

lemma writeModified_user_id [simp]: "user_id (writeModified read this stored) = user_id stored"
  by (simp add: writeModified_def)

lemma generateRefreshToken_id:
  "user_id a = user_id b \<Longrightarrow> generateRefreshToken now a = generateRefreshToken now b"
  by (simp add: generateRefreshToken_def)

lemma presented_verified:
  "jwt_verify now T key = Inr decoded \<Longrightarrow> presented (Some T) = Some T"
  by (cases T) (auto simp: presented_def)

lemma presented_expired:
  "jwt_verify now T key = Inl TokenExpiredError \<Longrightarrow> presented (Some T) = Some T"
  by (cases T) (auto simp: presented_def)

text \<open>On code points below 256, folding the case and trimming commute.\<close>

lemma latin1_toLowerCase_trim:
  "toLowerCase latin1 (trim latin1 s) = trim latin1 (toLowerCase latin1 s)"
proof -
  have "latin1_isSpace (latin1_toLowerChar c) = latin1_isSpace c" for c
    by (auto simp: latin1_isSpace_def latin1_toLowerChar_def latin1_upper_def latin1_lower_def)
  then have comp: "latin1_isSpace \<circ> latin1_toLowerChar = latin1_isSpace"
    by (auto simp: fun_eq_iff)
  show ?thesis
    by (simp add: latin1_def rev_map dropWhile_map comp)
qed

section \<open>Saving and issuing\<close>

text \<open>
  A save succeeds exactly on a document that is stored, and writes to it the paths that
  differ from the document read; what the stored document holds takes no part in the
  decision.
\<close>

lemma save_found:
  assumes "findById db (user_id this) = Some stored"
  shows "\<exists>db'. save db read this = Some db' \<and>
          findById db' (user_id this) = Some (writeModified read this stored) \<and>
          usedRefreshTokens db' = usedRefreshTokens db \<and> plans db' = plans db \<and> up db' = up db"
proof -
  let ?P = "\<lambda>s. user_id s = user_id this"
  have "find ?P (updateOne ?P (writeModified read this) (users db)) =
          map_option (writeModified read this) (find ?P (users db))"
    by (rule find_updateOne [where P = ?P and f = "writeModified read this"]) simp
  with assms show ?thesis
    by (simp add: save_def findById_def)
qed

text \<open>
  On a reachable database and a stored principal, token issuance succeeds: the refresh
  token is signed for the principal at the current clock, the access token is made from
  the document after the subscription check, and the changed paths are written.
\<close>

lemma generate_succeeds:
  assumes "up db" and "findById db (user_id this) = Some stored"
  shows "\<exists>db' this' at.
     generateAccessAndRefereshTokens now db this =
       Some (db', this', at, generateRefreshToken now this) \<and>
     this' = (fst (checkAndUpdateExpiredStatus now db (populate db this)))
               \<lparr>refreshToken := Some (generateRefreshToken now this)\<rparr> \<and>
     at = generateAccessToken now (fst (checkAndUpdateExpiredStatus now db (populate db this))) \<and>
     findById db' (user_id this) = Some (writeModified (populate db this) this' stored) \<and>
     usedRefreshTokens db' = usedRefreshTokens db \<and> plans db' = plans db \<and> up db' = up db"
proof -
  obtain this2 updated where chk:
    "checkAndUpdateExpiredStatus now db (populate db this) = (this2, updated)"
    by (cases "checkAndUpdateExpiredStatus now db (populate db this)")
  have id2: "user_id this2 = user_id this"
    using check_user_id [of now db "populate db this"] chk by simp
  have rt: "generateRefreshToken now this2 = generateRefreshToken now this"
    by (rule generateRefreshToken_id [OF id2])
  let ?this3 = "this2\<lparr>refreshToken := Some (generateRefreshToken now this)\<rparr>"
  have "findById db (user_id ?this3) = Some stored"
    using assms(2) id2 by simp
  from save_found [OF this, of "populate db this"]
  obtain db' where sv: "save db (populate db this) ?this3 = Some db'"
    and fb: "findById db' (user_id ?this3) = Some (writeModified (populate db this) ?this3 stored)"
    and rest: "usedRefreshTokens db' = usedRefreshTokens db" "plans db' = plans db" "up db' = up db"
    by blast
  show ?thesis
    using assms(1) chk rt sv fb rest id2
    by (simp add: generateAccessAndRefereshTokens_def Let_def)
qed



lemma writeModified_read_same:
  "writeModified (populate db found) ((populate db found)\<lparr>refreshToken := Some rt\<rparr>) found =
   found\<lparr>refreshToken := Some rt\<rparr>"
  by (cases found) (auto simp: writeModified_def)


lemma refreshHappyPath_on_read_document:
  assumes "up db" and "findById db (user_id found) = Some found"
  shows "\<exists>db' at.
     refreshHappyPath now db (populate db found) T =
       (db', \<lparr>status = 200, message = ''Access token refreshed.'',
              res_accessToken = Some at,
              res_refreshToken = Some (generateRefreshToken now found), res_user = None\<rparr>) \<and>
     up db' \<and>
     map_option refreshToken (findById db' (user_id found)) =
       Some (Some (generateRefreshToken now found)) \<and>
     usedRefreshTokens db' = usedRefreshTokens db @
       [\<lparr>used_token = T, used_userId = user_id found, used_accessToken = at,
         used_createdAt = now\<rparr>]"
proof -
  let ?read = "populate db found"
  let ?rt = "generateRefreshToken now found"
  have st: "findById db (user_id ?read) = Some found"
    using assms(2) by simp
  have rt: "generateRefreshToken now ?read = ?rt"
    by (rule generateRefreshToken_id) simp
  from generate_succeeds [OF assms(1) st, of now]
  obtain db' this' at where
    gen: "generateAccessAndRefereshTokens now db ?read = Some (db', this', at, ?rt)"
    and th: "this' = (fst (checkAndUpdateExpiredStatus now db ?read))\<lparr>refreshToken := Some ?rt\<rparr>"
    and fb: "findById db' (user_id found) = Some (writeModified ?read this' found)"
    and led: "usedRefreshTokens db' = usedRefreshTokens db" and u: "up db' = up db"
    by (auto simp: rt)
  have i: "user_id this' = user_id found"
    using th by simp
  have "refreshToken (writeModified ?read this' found) = Some ?rt"
    using th by (simp add: writeModified_def)
  with gen fb led u i assms(1) show ?thesis
    by (simp add: refreshHappyPath_def findById_def)
qed

text \<open>The two controllers that issue tokens do so through the model's method.\<close>

lemma refreshAccessToken_happy_path:
  assumes "up db"
    and "jwt_verify now T REFRESH_TOKEN_SECRET = Inr decoded"
    and "findById db (claims_id decoded) = Some found"
    and "refreshToken found = Some T"
  shows "refreshAccessToken now db (Some T) = refreshHappyPath now db (populate db found) T"
  using assms presented_verified [OF assms(2)]
  by (simp add: refreshAccessToken_def)


text \<open>The refresh of \<open>alice\<close> at 2000000 ms leads from \<open>db0\<close> to \<open>db1\<close>.\<close>

lemma example_rotation:
  "refreshAccessToken 2000000 db0 (Some T0) =
     (db1, \<lparr>status = 200, message = ''Access token refreshed.'',
            res_accessToken = Some A1, res_refreshToken = Some T1, res_user = None\<rparr>)"
  by (simp add: refreshAccessToken_def refreshHappyPath_def presented_def
      db0_def db1_def alice_def alice1_def bob_def examplePlans_def T0_def T1_def A1_def
      token_defs store_defs issue_defs)

section \<open>Rotation on the happy path\<close>

text \<open>
  C1: a rotation is to replace the stored pointer only while the pointer still equals
  the presented token. The controller compares the presented token with the pointer of
  the document it has read, and saves later without comparing again. Two requests
  present \<open>T0\<close> and both read \<open>alice\<close> while \<open>T0\<close> is current. The first completes
  and leaves \<open>T1\<close> as the pointer (\<open>db1\<close>). The second then runs its happy path at
  2001000 ms on the document it had read: it answers 200 and its token replaces \<open>T1\<close>,
  although the stored pointer was no longer \<open>T0\<close>.
\<close>

theorem concurrent_rotation_overwrites_pointer:
  "refreshToken (populate db0 alice) = Some T0 \<and>
   fst (refreshAccessToken 2000000 db0 (Some T0)) = db1 \<and>
   currentRefreshToken db1 1 = Some T1 \<and> T1 \<noteq> T0 \<and>
   status (snd (refreshHappyPath 2001000 db1 (populate db0 alice) T0)) = 200 \<and>
   res_refreshToken (snd (refreshHappyPath 2001000 db1 (populate db0 alice) T0)) =
     Some (Jwt REFRESH_TOKEN_SECRET (RefreshClaims 1) 2001 606801) \<and>
   currentRefreshToken (fst (refreshHappyPath 2001000 db1 (populate db0 alice) T0)) 1 =
     Some (Jwt REFRESH_TOKEN_SECRET (RefreshClaims 1) 2001 606801)"
proof -
  have "refreshToken (populate db0 alice) = Some T0"
    by (simp add: alice_def)
  moreover have "fst (refreshAccessToken 2000000 db0 (Some T0)) = db1"
    by (simp add: example_rotation)
  moreover have "currentRefreshToken db1 1 = Some T1" "T1 \<noteq> T0"
    by (simp_all add: db1_def alice_def alice1_def T0_def T1_def findById_def
        currentRefreshToken_def)
  moreover have
    "refreshHappyPath 2001000 db1 (populate db0 alice) T0 =
       (db1\<lparr>users :=
           [alice1\<lparr>subscriptionStartDate := Some 2001000,
              refreshToken := Some (Jwt REFRESH_TOKEN_SECRET (RefreshClaims 1) 2001 606801)\<rparr>,
            bob],
          usedRefreshTokens := usedRefreshTokens db1 @
           [\<lparr>used_token = T0, used_userId = 1,
             used_accessToken =
               Jwt ACCESS_TOKEN_SECRET (AccessClaims 1 RoleUser ''free'') 2001 2901,
             used_createdAt = 2001000\<rparr>]\<rparr>,
        \<lparr>status = 200, message = ''Access token refreshed.'',
         res_accessToken =
           Some (Jwt ACCESS_TOKEN_SECRET (AccessClaims 1 RoleUser ''free'') 2001 2901),
         res_refreshToken = Some (Jwt REFRESH_TOKEN_SECRET (RefreshClaims 1) 2001 606801),
         res_user = None\<rparr>)"
    by (simp add: refreshHappyPath_def db0_def db1_def alice_def alice1_def bob_def
        examplePlans_def T0_def T1_def A1_def token_defs store_defs issue_defs)
  ultimately show ?thesis
    by (simp add: currentRefreshToken_def findById_def alice1_def alice_def)
qed

section \<open>The grace-period path\<close>

text \<open>
  C2: when the presented token \<open>T\<close> verifies, differs from the pointer stored for its
  principal, and is found in the grace list, the refresh answers 200 with exactly the
  access token recorded in the list for \<open>T\<close> and the principal's stored current
  refresh token.
\<close>

theorem grace_path_response:
  assumes "up db"
    and "jwt_verify now T REFRESH_TOKEN_SECRET = Inr decoded"
    and "findById db (claims_id decoded) = Some u"
    and "refreshToken u \<noteq> Some T"
    and "find (\<lambda>e. used_token e = T) (usedRefreshTokens db) = Some e"
  shows "snd (refreshAccessToken now db (Some T)) =
           \<lparr>status = 200, message = ''Access token refreshed (grace period).'',
            res_accessToken = Some (used_accessToken e), res_refreshToken = refreshToken u,
            res_user = None\<rparr>"
  using assms presented_verified [OF assms(2)]
  by (simp add: refreshAccessToken_def)

theorem grace_path_response_witness:
  "up db1 \<and> jwt_verify 2001000 T0 REFRESH_TOKEN_SECRET = Inr (RefreshClaims 1) \<and>
   findById db1 (claims_id (RefreshClaims 1)) = Some alice1 \<and>
   refreshToken alice1 \<noteq> Some T0 \<and>
   find (\<lambda>e. used_token e = T0) (usedRefreshTokens db1) =
     Some \<lparr>used_token = T0, used_userId = 1, used_accessToken = A1, used_createdAt = 2000000\<rparr> \<and>
   snd (refreshAccessToken 2001000 db1 (Some T0)) =
     \<lparr>status = 200, message = ''Access token refreshed (grace period).'',
      res_accessToken = Some A1, res_refreshToken = Some T1, res_user = None\<rparr>"
proof -
  have h1: "up db1"
    by (simp add: db0_def db1_def alice_def alice1_def bob_def examplePlans_def T0_def
        T1_def A1_def)
  have h2: "jwt_verify 2001000 T0 REFRESH_TOKEN_SECRET = Inr (RefreshClaims 1)"
    by (simp add: db0_def db1_def alice_def alice1_def bob_def examplePlans_def T0_def
        T1_def A1_def)
  have h3: "findById db1 (claims_id (RefreshClaims 1)) = Some alice1"
    by (simp add: db0_def db1_def alice_def alice1_def bob_def examplePlans_def T0_def
        T1_def A1_def store_defs)
  have h4: "refreshToken alice1 \<noteq> Some T0"
    by (simp add: db0_def db1_def alice_def alice1_def bob_def examplePlans_def T0_def
        T1_def A1_def)
  have h5: "find (\<lambda>e. used_token e = T0) (usedRefreshTokens db1) =
     Some \<lparr>used_token = T0, used_userId = 1, used_accessToken = A1, used_createdAt = 2000000\<rparr>"
    by (simp add: db0_def db1_def alice_def alice1_def bob_def examplePlans_def T0_def
        T1_def A1_def)
  have r: "refreshToken alice1 = Some T1"
    by (simp add: db0_def db1_def alice_def alice1_def bob_def examplePlans_def T0_def
        T1_def A1_def)
  from grace_path_response [OF h1 h2 h3 h4 h5] h1 h2 h3 h4 h5 r
  show ?thesis by simp
qed

text \<open>
  Hence convergence: after a rotation that consumed \<open>T\<close>, a second presentation of
  \<open>T\<close> receives the pair the rotation returned.
\<close>

lemma replay_after_rotation_converges:
  assumes "up db"
    and "jwt_verify now T REFRESH_TOKEN_SECRET = Inr decoded"
    and "jwt_verify now' T REFRESH_TOKEN_SECRET = Inr decoded"
    and "findById db (claims_id decoded) = Some found"
    and "refreshToken found = Some T"
    and "generateRefreshToken now found \<noteq> T"
    and "find (\<lambda>e. used_token e = T) (usedRefreshTokens db) = None"
  shows "\<exists>db1 at rt.
     refreshAccessToken now db (Some T) =
       (db1, \<lparr>status = 200, message = ''Access token refreshed.'',
              res_accessToken = Some at, res_refreshToken = Some rt, res_user = None\<rparr>) \<and>
     refreshAccessToken now' db1 (Some T) =
       (db1, \<lparr>status = 200, message = ''Access token refreshed (grace period).'',
              res_accessToken = Some at, res_refreshToken = Some rt, res_user = None\<rparr>)"
proof -
  let ?rt = "generateRefreshToken now found"
  have i: "user_id found = claims_id decoded"
    by (rule findById_user_id [OF assms(4)])
  have st: "findById db (user_id found) = Some found"
    using assms(4) i by simp
  from refreshHappyPath_on_read_document [OF assms(1) st, of now T]
  obtain db1 at where
    hp: "refreshHappyPath now db (populate db found) T =
       (db1, \<lparr>status = 200, message = ''Access token refreshed.'',
              res_accessToken = Some at, res_refreshToken = Some ?rt, res_user = None\<rparr>)"
    and u1: "up db1"
    and p1: "map_option refreshToken (findById db1 (user_id found)) = Some (Some ?rt)"
    and l1: "usedRefreshTokens db1 = usedRefreshTokens db @
       [\<lparr>used_token = T, used_userId = user_id found, used_accessToken = at,
         used_createdAt = now\<rparr>]"
    by blast
  from p1 obtain stored1 where
    s1: "findById db1 (claims_id decoded) = Some stored1" and r1: "refreshToken stored1 = Some ?rt"
    using i by auto
  have ne: "refreshToken stored1 \<noteq> Some T"
    using r1 assms(6) by simp
  have led: "find (\<lambda>e. used_token e = T) (usedRefreshTokens db1) =
       Some \<lparr>used_token = T, used_userId = user_id found, used_accessToken = at,
         used_createdAt = now\<rparr>"
    using assms(7) l1 by (simp add: find_snoc)
  have first: "refreshAccessToken now db (Some T) =
       (db1, \<lparr>status = 200, message = ''Access token refreshed.'',
              res_accessToken = Some at, res_refreshToken = Some ?rt, res_user = None\<rparr>)"
    using refreshAccessToken_happy_path [OF assms(1,2,4,5)] hp by simp
  have second: "refreshAccessToken now' db1 (Some T) =
       (db1, \<lparr>status = 200, message = ''Access token refreshed (grace period).'',
              res_accessToken = Some at, res_refreshToken = Some ?rt, res_user = None\<rparr>)"
    using u1 assms(3) s1 ne led r1 presented_verified [OF assms(3)]
    by (simp add: refreshAccessToken_def)
  from first second show ?thesis by blast
qed

section \<open>The terminal rejections\<close>

text \<open>
  C3, as stated: an expired refresh token is answered 401 and an invalid one 403, never
  the same status. It fails: the expired token \<open>T0\<close> and a forged string both receive
  403.
\<close>

theorem expired_and_invalid_same_status_counterexample:
  "jwt_verify 700000000 T0 REFRESH_TOKEN_SECRET = Inl TokenExpiredError \<and>
   status (snd (refreshAccessToken 700000000 db0 (Some T0))) \<noteq> 401 \<and>
   status (snd (refreshAccessToken 700000000 db0 (Some T0))) =
     status (snd (refreshAccessToken 700000000 db0 (Some (Raw ''forged''))))"
  by (simp add: refreshAccessToken_def presented_def reply_def db0_def alice_def bob_def
      examplePlans_def T0_def)

text \<open>
  C3, amended: a request presenting an expired refresh token is answered 403 with the
  message \<open>Forbidden: Refresh token expired.\<close>, and a request presenting an invalid,
  replayed or forged refresh token is answered 403 with another message; the two
  outcomes share the status and differ in the message only.
\<close>

theorem refresh_rejections_share_403:
  assumes "up db"
    and "jwt_verify now T REFRESH_TOKEN_SECRET = Inl TokenExpiredError"
    and "T' \<noteq> Raw []" and "invalidToken now db T'"
  shows "snd (refreshAccessToken now db (Some T)) =
           reply 403 ''Forbidden: Refresh token expired.'' \<and>
         status (snd (refreshAccessToken now db (Some T'))) = 403 \<and>
         message (snd (refreshAccessToken now db (Some T'))) \<noteq>
           ''Forbidden: Refresh token expired.''"
  using assms presented_expired [OF assms(2)]
  by (auto simp: refreshAccessToken_def invalidToken_def presented_def reply_def
      split: sum.splits jwt_error.splits option.splits)

theorem refresh_rejections_share_403_witness:
  "up db0 \<and> jwt_verify 700000000 T0 REFRESH_TOKEN_SECRET = Inl TokenExpiredError \<and>
   Raw ''forged'' \<noteq> Raw [] \<and> invalidToken 700000000 db0 (Raw ''forged'') \<and>
   snd (refreshAccessToken 700000000 db0 (Some T0)) =
     reply 403 ''Forbidden: Refresh token expired.'' \<and>
   status (snd (refreshAccessToken 700000000 db0 (Some (Raw ''forged'')))) = 403 \<and>
   message (snd (refreshAccessToken 700000000 db0 (Some (Raw ''forged'')))) \<noteq>
     ''Forbidden: Refresh token expired.''"
proof -
  have h1: "up db0" by (simp add: db0_def alice_def bob_def examplePlans_def T0_def)
  have h2: "jwt_verify 700000000 T0 REFRESH_TOKEN_SECRET = Inl TokenExpiredError"
    by (simp add: db0_def alice_def bob_def examplePlans_def T0_def)
  have h3: "Raw ''forged'' \<noteq> Raw []" by simp
  have h4: "invalidToken 700000000 db0 (Raw ''forged'')" by (simp add: invalidToken_def)
  from refresh_rejections_share_403 [OF h1 h2 h3 h4] h1 h2 h3 h4
  show ?thesis by simp
qed

text \<open>
  C4: a refresh token whose signed expiry has passed is rejected as expired whatever the
  database holds, also when it is the principal's current pointer and also when the
  database cannot be reached; the database is left as it was.
\<close>

theorem expired_refresh_token_rejected_first:
  assumes "T = Jwt REFRESH_TOKEN_SECRET payload iat exp" and "exp \<le> now div 1000"
  shows "refreshAccessToken now db (Some T) =
           (db, reply 403 ''Forbidden: Refresh token expired.'')"
  using assms by (simp add: refreshAccessToken_def presented_def)

theorem expired_refresh_token_rejected_first_witness:
  "T0 = Jwt REFRESH_TOKEN_SECRET (RefreshClaims 1) 1000 605800 \<and>
   605800 \<le> (700000000 :: int) div 1000 \<and>
   currentRefreshToken db0 1 = Some T0 \<and>
   refreshAccessToken 700000000 db0 (Some T0) =
     (db0, reply 403 ''Forbidden: Refresh token expired.'')"
proof -
  have h1: "T0 = Jwt REFRESH_TOKEN_SECRET (RefreshClaims 1) 1000 605800"
    by (simp add: T0_def)
  have h2: "605800 \<le> (700000000 :: int) div 1000" by simp
  have c: "currentRefreshToken db0 1 = Some T0"
    by (simp add: db0_def alice_def bob_def examplePlans_def T0_def store_defs
        currentRefreshToken_def)
  from expired_refresh_token_rejected_first [OF h1 h2, of db0] h1 h2 c
  show ?thesis by simp
qed

section \<open>Login\<close>

text \<open>
  C5: a login whose identifier matches no principal is answered 404, a login with a
  wrong password 401, both with the message \<open>Invalid credentials.\<close>; the status tells
  the two apart.
\<close>

theorem login_status_tells_unknown_identifier:
  "findByIdentifier latin1 db0 ''nobody'' = None \<and>
   loginUser latin1 2000000 db0 ''nobody'' ''Secret1!'' =
     (db0, reply 404 ''Invalid credentials.'') \<and>
   loginUser latin1 2000000 db0 ''alice'' ''wrong'' =
     (db0, reply 401 ''Invalid credentials.'')"
  by (simp add: loginUser_def isPasswordCorrect_def bcrypt_compare_def db0_def alice_def
      bob_def examplePlans_def T0_def store_defs email_setter_def username_setter_def latin1_def
      latin1_toLowerChar_def latin1_isSpace_def latin1_upper_def latin1_lower_def)

text \<open>
  C6: the lookup by identifier matches on the username or on the email, and the email
  branch ignores letter case, whatever the letters. For the language's own
  \<open>toLowerCase\<close> and \<open>trim\<close>, of which only that they commute is used (white space
  has no case, and no letter folds to white space): for a stored principal whose email
  went through the schema's setter, in a collection with unique emails, an identifier
  with the same \<open>toLowerCase\<close> as the email matches that principal; the lookup
  returns a principal, and it returns that one unless the identifier is also some
  principal's username.
\<close>

theorem lookup_email_case_insensitive:
  assumes "\<And>s. toLowerCase js (trim js s) = trim js (toLowerCase js s)"
    and "u \<in> set (users db)"
    and "email_setter js (email u) = email u"
    and "distinct (map email (users db))"
    and "toLowerCase js identifier = toLowerCase js (email u)"
  shows "matchesIdentifier js identifier u \<and>
         (\<exists>v. findByIdentifier js db identifier = Some v \<and> matchesIdentifier js identifier v) \<and>
         ((\<forall>v \<in> set (users db). username v \<noteq> username_setter js identifier) \<longrightarrow>
            findByIdentifier js db identifier = Some u)"
proof -
  have "email_setter js identifier = trim js (toLowerCase js identifier)"
    by (simp add: email_setter_def assms(1))
  also have "\<dots> = email_setter js (email u)"
    by (simp add: assms(5) email_setter_def assms(1))
  finally have key: "email_setter js identifier = email u"
    by (simp add: assms(3))
  then have m: "matchesIdentifier js identifier u"
    by (simp add: matchesIdentifier_def)
  with assms(2) obtain v where v: "findByIdentifier js db identifier = Some v"
    by (cases "findByIdentifier js db identifier")
      (auto simp: findByIdentifier_def find_None_iff)
  then have vm: "matchesIdentifier js identifier v" and vin: "v \<in> set (users db)"
    by (auto simp: findByIdentifier_def find_Some_iff)
  have "v = u" if "\<forall>w \<in> set (users db). username w \<noteq> username_setter js identifier"
  proof -
    from that vin vm have "email v = email u"
      by (auto simp: matchesIdentifier_def key)
    moreover have "inj_on email (set (users db))"
      using assms(4) by (simp add: distinct_map)
    ultimately show ?thesis
      using vin assms(2) by (auto dest: inj_onD)
  qed
  with m v vm show ?thesis by blast
qed

theorem lookup_email_case_insensitive_witness:
  "(\<forall>s. toLowerCase latin1 (trim latin1 s) = trim latin1 (toLowerCase latin1 s)) \<and>
   eva \<in> set (users dbMail) \<and> email_setter latin1 (email eva) = email eva \<and>
   distinct (map email (users dbMail)) \<and>
   toLowerCase latin1 (CHR 0xC9 # ''VA@X.COM'') = toLowerCase latin1 (email eva) \<and>
   CHR 0xC9 # ''VA@X.COM'' \<noteq> email eva \<and>
   list_all (\<lambda>v. username v \<noteq> username_setter latin1 (CHR 0xC9 # ''VA@X.COM''))
     (users dbMail) \<and>
   matchesIdentifier latin1 (CHR 0xC9 # ''VA@X.COM'') eva \<and>
   findByIdentifier latin1 dbMail (CHR 0xC9 # ''VA@X.COM'') = Some eva"
proof -
  have h1: "eva \<in> set (users dbMail)" by (simp add: dbMail_def)
  have h2: "email_setter latin1 (email eva) = email eva"
    by (simp add: eva_def email_setter_def username_setter_def latin1_def
      latin1_toLowerChar_def latin1_isSpace_def latin1_upper_def latin1_lower_def)
  have h3: "distinct (map email (users dbMail))"
    by (simp add: dbMail_def bob_def eva_def)
  have h4: "toLowerCase latin1 (CHR 0xC9 # ''VA@X.COM'') = toLowerCase latin1 (email eva)"
    by (simp add: eva_def email_setter_def username_setter_def latin1_def
      latin1_toLowerChar_def latin1_isSpace_def latin1_upper_def latin1_lower_def)
  have h5: "CHR 0xC9 # ''VA@X.COM'' \<noteq> email eva" by (simp add: eva_def)
  have h6: "list_all (\<lambda>v. username v \<noteq> username_setter latin1 (CHR 0xC9 # ''VA@X.COM''))
     (users dbMail)"
    by (simp add: dbMail_def bob_def eva_def email_setter_def username_setter_def latin1_def
      latin1_toLowerChar_def latin1_isSpace_def latin1_upper_def latin1_lower_def)
  from lookup_email_case_insensitive [of latin1, OF latin1_toLowerCase_trim h1 h2 h3 h4]
    h1 h2 h3 h4 h5 h6 latin1_toLowerCase_trim
  show ?thesis by (simp add: list_all_iff)
qed

section \<open>Logout\<close>

text \<open>
  C8: logging a principal out twice in a row gives the same state and the same answer as
  logging out once: status 200 and no current refresh token stored for the principal.
\<close>

theorem logout_idempotent:
  assumes "up db"
  shows "logoutUser (fst (logoutUser db (Some i) body)) (Some i) body = logoutUser db (Some i) body \<and>
         status (snd (logoutUser db (Some i) body)) = 200 \<and>
         currentRefreshToken (fst (logoutUser db (Some i) body)) i = None"
proof -
  let ?P = "\<lambda>u. user_id u = i"
  have keep: "\<And>x. ?P (unsetRefreshToken x) = ?P x"
    by (simp add: unsetRefreshToken_def)
  have idem: "\<And>x. unsetRefreshToken (unsetRefreshToken x) = unsetRefreshToken x"
    by (simp add: unsetRefreshToken_def)
  have twice: "updateOne ?P unsetRefreshToken (updateOne ?P unsetRefreshToken (users db)) =
       updateOne ?P unsetRefreshToken (users db)"
    by (rule updateOne_twice [where P = ?P and f = unsetRefreshToken]) (simp_all add: keep idem)
  have cleared: "find ?P (updateOne ?P unsetRefreshToken (users db)) =
       map_option unsetRefreshToken (find ?P (users db))"
    by (rule find_updateOne [where P = ?P and f = unsetRefreshToken]) (simp add: keep)
  show ?thesis
    using assms twice cleared
    by (simp add: logoutUser_def reply_def currentRefreshToken_def findById_def
        unsetRefreshToken_def split: option.splits)
qed

theorem logout_idempotent_witness:
  "up db0 \<and> currentRefreshToken db0 1 = Some T0 \<and>
   logoutUser (fst (logoutUser db0 (Some 1) None)) (Some 1) None =
     logoutUser db0 (Some 1) None \<and>
   status (snd (logoutUser db0 (Some 1) None)) = 200 \<and>
   currentRefreshToken (fst (logoutUser db0 (Some 1) None)) 1 = None"
proof -
  have h1: "up db0" by (simp add: db0_def alice_def bob_def examplePlans_def T0_def)
  have c: "currentRefreshToken db0 1 = Some T0"
    by (simp add: db0_def alice_def bob_def examplePlans_def T0_def store_defs
        currentRefreshToken_def)
  from logout_idempotent [OF h1, of 1 None] h1 c
  show ?thesis by simp
qed

section \<open>Frame of the grace-period path\<close>

text \<open>
  C9: a refresh that resolves through the grace list changes nothing: the database
  after it is the database before it (pointer, documents and grace list alike), and a
  later presentation of the same token, while it still verifies, receives the same
  answer.
\<close>

theorem grace_path_read_only:
  assumes "up db"
    and "jwt_verify now T REFRESH_TOKEN_SECRET = Inr decoded"
    and "jwt_verify now' T REFRESH_TOKEN_SECRET = Inr decoded"
    and "findById db (claims_id decoded) = Some u"
    and "refreshToken u \<noteq> Some T"
    and "find (\<lambda>e. used_token e = T) (usedRefreshTokens db) = Some e"
  shows "fst (refreshAccessToken now db (Some T)) = db \<and>
         refreshAccessToken now' (fst (refreshAccessToken now db (Some T))) (Some T) =
           refreshAccessToken now db (Some T)"
  using assms presented_verified [OF assms(2)]
  by (simp add: refreshAccessToken_def)

theorem grace_path_read_only_witness:
  "up db1 \<and> jwt_verify 2001000 T0 REFRESH_TOKEN_SECRET = Inr (RefreshClaims 1) \<and>
   jwt_verify 2005000 T0 REFRESH_TOKEN_SECRET = Inr (RefreshClaims 1) \<and>
   findById db1 (claims_id (RefreshClaims 1)) = Some alice1 \<and>
   refreshToken alice1 \<noteq> Some T0 \<and>
   find (\<lambda>e. used_token e = T0) (usedRefreshTokens db1) =
     Some \<lparr>used_token = T0, used_userId = 1, used_accessToken = A1, used_createdAt = 2000000\<rparr> \<and>
   fst (refreshAccessToken 2001000 db1 (Some T0)) = db1 \<and>
   refreshAccessToken 2005000 (fst (refreshAccessToken 2001000 db1 (Some T0))) (Some T0) =
     refreshAccessToken 2001000 db1 (Some T0)"
proof -
  have h1: "up db1"
    by (simp add: db0_def db1_def alice_def alice1_def bob_def examplePlans_def T0_def
        T1_def A1_def)
  have h2: "jwt_verify 2001000 T0 REFRESH_TOKEN_SECRET = Inr (RefreshClaims 1)"
    by (simp add: db0_def db1_def alice_def alice1_def bob_def examplePlans_def T0_def
        T1_def A1_def)
  have h2': "jwt_verify 2005000 T0 REFRESH_TOKEN_SECRET = Inr (RefreshClaims 1)"
    by (simp add: db0_def db1_def alice_def alice1_def bob_def examplePlans_def T0_def
        T1_def A1_def)
  have h3: "findById db1 (claims_id (RefreshClaims 1)) = Some alice1"
    by (simp add: db0_def db1_def alice_def alice1_def bob_def examplePlans_def T0_def
        T1_def A1_def store_defs)
  have h4: "refreshToken alice1 \<noteq> Some T0"
    by (simp add: db0_def db1_def alice_def alice1_def bob_def examplePlans_def T0_def
        T1_def A1_def)
  have h5: "find (\<lambda>e. used_token e = T0) (usedRefreshTokens db1) =
     Some \<lparr>used_token = T0, used_userId = 1, used_accessToken = A1, used_createdAt = 2000000\<rparr>"
    by (simp add: db0_def db1_def alice_def alice1_def bob_def examplePlans_def T0_def
        T1_def A1_def)
  from grace_path_read_only [OF h1 h2 h2' h3 h4 h5] h1 h2 h2' h3 h4 h5
  show ?thesis by blast
qed

section \<open>The subscription check at issuance\<close>



section \<open>The time to live of the cached refresh result\<close>

text \<open>
  C7: the time to live of the cached result is never to exceed the time remaining until
  the next refresh point (the new expiry minus the early-refresh window). With 1000 ms
  remaining the floor of 2000 ms applies, and with nothing remaining the cap of 20000 ms
  is taken.
\<close>

theorem resultTtlMs_outlives_refresh_point:
  "(31000 :: int) - 0 - EARLY_REFRESH_WINDOW_MS = 1000 \<and> resultTtlMs 0 (Some 31000) = 2000 \<and>
   (30000 :: int) - 0 - EARLY_REFRESH_WINDOW_MS = 0 \<and> resultTtlMs 0 (Some 30000) = 20000"
  by (simp add: resultTtlMs_def EARLY_REFRESH_WINDOW_MS_def RESULT_TTL_CAP_MS_def)

text \<open>The cap itself is kept.\<close>

lemma resultTtlMs_within_cap: "resultTtlMs now expires \<le> RESULT_TTL_CAP_MS"
  by (simp add: resultTtlMs_def EARLY_REFRESH_WINDOW_MS_def RESULT_TTL_CAP_MS_def Let_def)

end
